theory Spec2Isabelle
  imports Complex_Main "HOL-Library.Word" "HOL-Library.Monad_Syntax"
begin

section \<open>ESP32 ADXL313 data logger: the firmware of \<open>src/main.c\<close>\<close>

text \<open>
  The firmware consists of a boot sequence (\<open>setup\<close>) and three FreeRTOS tasks that loop
  forever: \<open>Task1code\<close> (sampling and logging), \<open>Task2code\<close> (clock-driven lifecycle
  control) and \<open>Task3code\<close> (ESP-NOW broadcast). The global variables of the program and
  the parts of the outside world it acts on (SD card, radio, serial console, scheduler)
  form one state record; one iteration of a task's \<open>for (;;)\<close> body is one function on
  that state. What the environment answers during an iteration (the clock query, the
  sensor, the SD card) is an argument of that function. The interleaving of the three
  tasks is not modelled: every iteration is taken as one step.
\<close>

subsection \<open>Data\<close>

text \<open>C \<open>int\<close> on the ESP32 has 32 bits; \<open>sint\<close> reads a value as two's complement.\<close>

type_synonym cint = "32 word"

text \<open>The fields of \<open>struct tm\<close> that \<open>printLocalTime\<close> reads.\<close>

record tm =
  tm_sec :: cint
  tm_min :: cint
  tm_hour :: cint
  tm_mday :: cint
  tm_mon :: cint
  tm_year :: cint

text \<open>\<open>float data[3]\<close>: an array of exactly three cells, indexed 0, 1, 2.\<close>

datatype 'f arr3 = Arr3 'f 'f 'f

fun arr3_get :: "'f arr3 \<Rightarrow> nat \<Rightarrow> 'f" where
  "arr3_get (Arr3 a b c) i = (if i = 0 then a else if i = 1 then b else c)"

fun arr3_set :: "'f arr3 \<Rightarrow> nat \<Rightarrow> 'f \<Rightarrow> 'f arr3" where
  "arr3_set (Arr3 a b c) i v =
     (if i = 0 then Arr3 v b c else if i = 1 then Arr3 a v c else if i = 2 then Arr3 a b v
      else Arr3 a b c)"

text \<open>\<open>struct_message\<close>, the ESP-NOW payload. The type \<open>'f\<close> stands for C \<open>float\<close>.\<close>

record 'f struct_message =
  msg_id :: cint
  msg_x :: 'f
  msg_y :: 'f
  msg_z :: 'f

datatype power_mode = Standby | Measure

datatype adxl_setting = RANGE_2_G | BW_50 | FullResBit bool

text \<open>
  Modelled from the spec: the driver class \<open>ADXL313\<close> is declared in
  \<open>SparkFunADXL313.h\<close>, which is not part of the repository. The spec gives the driver
  as \<open>dataReady() -> bool\<close>, \<open>readAccel() -> (x,y,z)\<close>, \<open>standby()\<close> and a resume
  operation, and a reading as three floats. The object holds the three axis values of the
  last \<open>readAccel()\<close>, the power mode set by \<open>standby()\<close> / \<open>measureModeOn()\<close>, and the
  settings written to it.
\<close>

record 'f ADXL313 =
  adxl_x :: 'f
  adxl_y :: 'f
  adxl_z :: 'f
  adxl_mode :: power_mode
  adxl_settings :: "adxl_setting list"

text \<open>
  A task handle: \<open>Not_created\<close> (the handle is NULL) before \<open>xTaskCreatePinnedToCore\<close>
  has filled it in, afterwards the lifecycle state the scheduler keeps for the task.
\<close>

datatype task_state = Not_created | Running | Suspended

datatype wifi_mode = WIFI_OFF | WIFI_STA

text \<open>The fields of \<open>esp_now_peer_info_t\<close> that \<open>setup\<close> writes.\<close>

record esp_now_peer_info_t =
  peer_addr :: "8 word list"
  channel :: "8 word"
  encrypt :: bool

text \<open>
  The globals of \<open>main.c\<close> in their order of declaration, followed by the outside world:
  the files of the SD card (name to contents), the registered ESP-NOW peers, the
  (destination, payload) pairs handed to \<open>esp_now_send\<close> in order, the radio mode and the
  text printed on the serial console.
\<close>

record 'f state =
  mint :: cint
  sect :: cint
  hourt :: cint
  dayt :: cint
  montht :: cint
  yeart :: cint
  gpsDate :: string
  header :: string
  Date :: string
  cap :: string
  Task1 :: task_state
  Task2 :: task_state
  Task3 :: task_state
  data :: "'f arr3"
  myData :: "'f struct_message"
  myAdxl :: "'f ADXL313"
  peerInfo :: esp_now_peer_info_t
  sd_files :: "string \<rightharpoonup> string"
  esp_now_peers :: "esp_now_peer_info_t list"
  esp_now_sent :: "(8 word list \<times> 'f struct_message) list"
  radio :: wifi_mode
  serial :: string

text \<open>
  How an iteration or the boot sequence ends when it does not run to its end:
  \<open>ESP.restart()\<close>, the \<open>error(msg)\<close> macro (\<open>sd.errorHalt\<close>), \<open>sd.initErrorHalt()\<close>,
  a \<open>sprintf\<close> whose output does not fit the destination array (undefined behaviour
  in C; the model stops there and says which array), and a FreeRTOS call that requires a
  task handle and is given NULL (the model stops there and says which call).
\<close>

datatype stop =
  Restart | Halted string | InitErrorHalt | Buffer_overflow string | Null_handle string

subsection \<open>Formatting\<close>

text \<open>The conversion \<open>%d\<close> of \<open>sprintf\<close>: decimal digits, with a minus sign below zero.\<close>

definition digit_char :: "nat \<Rightarrow> char" where
  "digit_char d = ''0123456789'' ! (d mod 10)"

function show_nat :: "nat \<Rightarrow> string" where
  "show_nat n = (if n < 10 then [digit_char n] else show_nat (n div 10) @ [digit_char n])"
  by pat_completeness auto
termination
  by (relation "measure id") auto

declare show_nat.simps [simp del]

definition show_int :: "int \<Rightarrow> string" where
  "show_int i = (if i < 0 then CHR ''-'' # show_nat (nat (- i)) else show_nat (nat i))"

definition show_cint :: "cint \<Rightarrow> string" where
  "show_cint w = show_int (sint w)"

text \<open>
  The four \<open>char\<close> arrays \<open>gpsDate\<close>, \<open>header\<close>, \<open>Date\<close> and \<open>cap\<close> are declared with 20
  elements. \<open>sprintf\<close> writes the formatted text and a terminating NUL, so the text
  fits when it is shorter than the array; otherwise \<open>sprintf\<close> writes past the end of
  the array.
\<close>

definition buf_size :: nat where
  "buf_size = 20"

definition sprintf_to :: "string \<Rightarrow> string \<Rightarrow> stop + string" where
  "sprintf_to buf s = (if length s < buf_size then Inr s else Inl (Buffer_overflow buf))"

text \<open>
  The texts of the four format strings of the program, as functions of the arguments
  passed to \<open>sprintf\<close>: \<open>"%d/%d/%d %d:%d:%d"\<close>, \<open>"%s,%d,%d,%d,\n"\<close>,
  \<open>"/test%d%d%d.csv"\<close> and \<open>"%s,%s,%s,%s,"\<close>.
\<close>

definition format_Date :: "cint \<Rightarrow> cint \<Rightarrow> cint \<Rightarrow> cint \<Rightarrow> cint \<Rightarrow> cint \<Rightarrow> string" where
  "format_Date y mo d h mi s =
     show_cint y @ ''/'' @ show_cint mo @ ''/'' @ show_cint d @ '' '' @
     show_cint h @ '':'' @ show_cint mi @ '':'' @ show_cint s"

definition format_gpsDate :: "string \<Rightarrow> cint \<Rightarrow> cint \<Rightarrow> cint \<Rightarrow> string" where
  "format_gpsDate d x y z =
     d @ '','' @ show_cint x @ '','' @ show_cint y @ '','' @ show_cint z @ '','' @ [CHR 0x0A]"

definition format_cap :: "cint \<Rightarrow> cint \<Rightarrow> cint \<Rightarrow> string" where
  "format_cap y mo d = ''/test'' @ show_cint y @ show_cint mo @ show_cint d @ ''.csv''"

definition format_header :: "string \<Rightarrow> string \<Rightarrow> string \<Rightarrow> string \<Rightarrow> string" where
  "format_header a b c d = a @ '','' @ b @ '','' @ c @ '','' @ d @ '',''"

subsection \<open>Clock\<close>

text \<open>
  \<open>printLocalTime\<close>. The argument is the answer of \<open>getLocalTime(&timeinfo)\<close>:
  \<open>None\<close> when it returns false, \<open>Some t\<close> when it returns true and has filled in \<open>t\<close>.
\<close>

definition printLocalTime :: "tm option \<Rightarrow> 'f state \<Rightarrow> 'f state" where
  "printLocalTime timeinfo st =
     (case timeinfo of
        None \<Rightarrow> st
      | Some t \<Rightarrow>
          st\<lparr>hourt := tm_hour t,
             mint := tm_min t,
             sect := tm_sec t,
             dayt := tm_mday t,
             montht := tm_mon t + 1,
             yeart := tm_year t + 1900\<rparr>)"

subsection \<open>Lifecycle controller (\<open>Task2code\<close>)\<close>

definition standby :: "'f state \<Rightarrow> 'f state" where
  "standby st = st\<lparr>myAdxl := (myAdxl st)\<lparr>adxl_mode := Standby\<rparr>\<rparr>"

definition measureModeOn :: "'f state \<Rightarrow> 'f state" where
  "measureModeOn st = st\<lparr>myAdxl := (myAdxl st)\<lparr>adxl_mode := Measure\<rparr>\<rparr>"

definition Serial_print :: "string \<Rightarrow> 'f state \<Rightarrow> 'f state" where
  "Serial_print s st = st\<lparr>serial := serial st @ s\<rparr>"

definition Serial_println :: "string \<Rightarrow> 'f state \<Rightarrow> 'f state" where
  "Serial_println s st = st\<lparr>serial := serial st @ s @ [CHR 0x0D, CHR 0x0A]\<rparr>"

text \<open>
  \<open>vTaskSuspend(h)\<close> and \<open>vTaskResume(h)\<close> as \<open>Task2code\<close> calls them on the handles
  \<open>Task1\<close> and \<open>Task3\<close>. On the handle of a created task, \<open>vTaskSuspend\<close> leaves the
  task suspended and \<open>vTaskResume\<close> leaves it running. FreeRTOS gives
  \<open>vTaskSuspend(NULL)\<close> the meaning "suspend the calling task": the caller is the task
  that runs \<open>Task2code\<close>, whose handle is \<open>Task2\<close>, and a suspended task executes
  nothing after the call. \<open>vTaskResume\<close> requires a handle
  (\<open>configASSERT(xTaskToResume)\<close>); on a NULL handle the model stops with
  \<open>Null_handle\<close>.
\<close>

definition vTaskSuspend_NULL :: "'f state \<Rightarrow> 'f state" where
  "vTaskSuspend_NULL st = st\<lparr>Task2 := Suspended\<rparr>"

text \<open>
  The body of the \<open>Scheduled suspend\<close> block: \<open>vTaskSuspend(Task1)\<close>,
  \<open>vTaskSuspend(Task3)\<close>, \<open>myAdxl.standby()\<close>, \<open>Serial.println\<close>. The result is the
  state in which the task next stops executing: at the end of the block, or at the
  \<open>vTaskSuspend\<close> that suspends the task itself.
\<close>

definition suspend_tasks :: "'f state \<Rightarrow> 'f state" where
  "suspend_tasks st =
     (if Task1 st = Not_created then vTaskSuspend_NULL st
      else
        (let st = st\<lparr>Task1 := Suspended\<rparr>
         in if Task3 st = Not_created then vTaskSuspend_NULL st
            else
              (let st = st\<lparr>Task3 := Suspended\<rparr>;
                   st = standby st
               in Serial_println ''Tasks suspended'' st)))"

text \<open>
  The body of the \<open>Scheduled resume\<close> block: \<open>vTaskResume(Task1)\<close>,
  \<open>vTaskResume(Task3)\<close>, \<open>myAdxl.measureModeOn()\<close>, \<open>Serial.println\<close>.
\<close>

definition resume_tasks :: "'f state \<Rightarrow> stop + 'f state" where
  "resume_tasks st =
     (if Task1 st = Not_created then Inl (Null_handle ''vTaskResume'')
      else
        (let st = st\<lparr>Task1 := Running\<rparr>
         in if Task3 st = Not_created then Inl (Null_handle ''vTaskResume'')
            else
              (let st = st\<lparr>Task3 := Running\<rparr>;
                   st = measureModeOn st
               in Inr (Serial_println ''Tasks resumed'' st))))"

text \<open>
  One iteration of the \<open>for (;;)\<close> loop of \<open>Task2code\<close>. Each \<open>if\<close> reads the globals
  \<open>hourt\<close>, \<open>mint\<close>, \<open>sect\<close> of the state it is reached in. \<open>vTaskDelayUntil\<close> only
  paces the loop and has no effect on the state. When the suspend block has suspended the
  task itself, the two later conditions are not reached; they compare the same three
  globals with other times, so evaluating them changes nothing.
\<close>

definition Task2code :: "tm option \<Rightarrow> 'f state \<Rightarrow> stop + 'f state" where
  "Task2code timeinfo st =
     (let st = printLocalTime timeinfo st;
          st = (if hourt st = 21 \<and> mint st = 12 \<and> sect st = 10 then suspend_tasks st else st)
      in case (if hourt st = 6 \<and> mint st = 12 \<and> sect st = 10
               then resume_tasks st else Inr st) of
           Inl e \<Rightarrow> Inl e
         | Inr st \<Rightarrow>
             if (hourt st = 6 \<and> mint st = 16 \<and> sect st = 10) \<or>
                (hourt st = 6 \<and> mint st = 18 \<and> sect st = 10)
             then Inl Restart
             else Inr st)"

text \<open>
  The tick as section 4.3 of the spec words it: one calendar snapshot, and the three
  transitions Suspend, Resume, Restart evaluated in this order, each by exact match of the
  snapshot's (hour, minute, second) triple against the configured time of day.
\<close>

definition snapshot :: "'f state \<Rightarrow> cint \<times> cint \<times> cint" where
  "snapshot st = (hourt st, mint st, sect st)"

definition lifecycle_tick :: "cint \<times> cint \<times> cint \<Rightarrow> 'f state \<Rightarrow> stop + 'f state" where
  "lifecycle_tick hms st =
     (let st1 = (if hms = (21, 12, 10) then suspend_tasks st else st)
      in case (if hms = (6, 12, 10) then resume_tasks st1 else Inr st1) of
           Inl e \<Rightarrow> Inl e
         | Inr st2 \<Rightarrow>
             if hms = (6, 16, 10) \<or> hms = (6, 18, 10) then Inl Restart else Inr st2)"

text \<open>The configured trigger times of \<open>Task2code\<close>.\<close>

definition trigger_times :: "(cint \<times> cint \<times> cint) list" where
  "trigger_times = [(21, 12, 10), (6, 12, 10), (6, 16, 10), (6, 18, 10)]"

subsection \<open>Sampler (\<open>Task1code\<close>)\<close>

text \<open>
  What the environment answers during one iteration of \<open>Task1code\<close>: whether
  \<open>myAdxl.dataReady()\<close> is true, the three axis values that \<open>myAdxl.readAccel()\<close>
  delivers, whether the \<open>ofstream\<close> opens (\<open>!sdout\<close> is false), and whether the
  insertion \<open>sdout << gpsDate\<close> reaches the card.
\<close>

record 'f sampler_env =
  dataReady :: bool
  accel :: "'f \<times> 'f \<times> 'f"
  open_ok :: bool
  write_ok :: bool

definition readAccel :: "'f \<times> 'f \<times> 'f \<Rightarrow> 'f state \<Rightarrow> 'f state" where
  "readAccel r st =
     (case r of (x, y, z) \<Rightarrow> st\<lparr>myAdxl := (myAdxl st)\<lparr>adxl_x := x, adxl_y := y, adxl_z := z\<rparr>\<rparr>)"

text \<open>
  \<open>ofstream sdout(cap, ios::out | ios::app)\<close> opens the file for appending and creates
  it when it does not exist; \<open>sdout << gpsDate\<close> appends the text. The stream state after
  the insertion is not tested by the program: a failed insertion appends nothing and the
  iteration goes on.
\<close>

definition open_append :: "string \<Rightarrow> 'f state \<Rightarrow> 'f state" where
  "open_append name st =
     (case sd_files st name of
        None \<Rightarrow> st\<lparr>sd_files := (sd_files st)(name \<mapsto> [])\<rparr>
      | Some _ \<Rightarrow> st)"

definition append_text :: "string \<Rightarrow> string \<Rightarrow> 'f state \<Rightarrow> 'f state" where
  "append_text name s st =
     (case sd_files st name of
        None \<Rightarrow> st
      | Some old \<Rightarrow> st\<lparr>sd_files := (sd_files st)(name \<mapsto> old @ s)\<rparr>)"

text \<open>
  One iteration of the \<open>for (;;)\<close> loop of \<open>Task1code\<close>. The conversion \<open>int(...)\<close> of
  a float is the parameter \<open>int_of_float\<close>.
\<close>

definition Task1code ::
  "('f \<Rightarrow> cint) \<Rightarrow> 'f sampler_env \<Rightarrow> 'f state \<Rightarrow> stop + 'f state" where
  "Task1code int_of_float env st =
     (if dataReady env then
        (let st = readAccel (accel env) st;
             st = st\<lparr>data := arr3_set (data st) 0 (adxl_x (myAdxl st))\<rparr>;
             st = st\<lparr>data := arr3_set (data st) 1 (adxl_y (myAdxl st))\<rparr>;
             st = st\<lparr>data := arr3_set (data st) 2 (adxl_z (myAdxl st))\<rparr>
         in case sprintf_to ''Date''
                   (format_Date (yeart st) (montht st) (dayt st)
                      (hourt st) (mint st) (sect st)) of
              Inl e \<Rightarrow> Inl e
            | Inr d \<Rightarrow>
                (let st = st\<lparr>Date := d\<rparr>
                 in case sprintf_to ''gpsDate''
                           (format_gpsDate (Date st)
                              (int_of_float (adxl_x (myAdxl st)))
                              (int_of_float (adxl_y (myAdxl st)))
                              (int_of_float (adxl_z (myAdxl st)))) of
                      Inl e \<Rightarrow> Inl e
                    | Inr g \<Rightarrow>
                        (let st = st\<lparr>gpsDate := g\<rparr>
                         in if \<not> open_ok env then Inl (Halted ''open failed'')
                            else (let st = open_append (cap st) st;
                                      st = (if write_ok env
                                            then append_text (cap st) (gpsDate st) st
                                            else st)
                                  in Inr st))))
      else Inr st)"

subsection \<open>Broadcaster (\<open>Task3code\<close>)\<close>

definition broadcastAddress :: "8 word list" where
  "broadcastAddress = [0x7C, 0x9E, 0xBD, 0x30, 0x6E, 0x98]"

definition esp_now_send :: "8 word list \<Rightarrow> 'f struct_message \<Rightarrow> 'f state \<Rightarrow> 'f state" where
  "esp_now_send addr payload st = st\<lparr>esp_now_sent := esp_now_sent st @ [(addr, payload)]\<rparr>"

text \<open>
  One iteration of the \<open>for (;;)\<close> loop of \<open>Task3code\<close>. \<open>vTaskDelay\<close> has no effect on
  the state.
\<close>

definition Task3code :: "'f state \<Rightarrow> 'f state" where
  "Task3code st =
     (let st = st\<lparr>radio := WIFI_STA\<rparr>;
          st = st\<lparr>myData := (myData st)\<lparr>msg_id := 11\<rparr>\<rparr>;
          st = st\<lparr>myData := (myData st)\<lparr>msg_x := arr3_get (data st) 0\<rparr>\<rparr>;
          st = st\<lparr>myData := (myData st)\<lparr>msg_y := arr3_get (data st) 1\<rparr>\<rparr>;
          st = st\<lparr>myData := (myData st)\<lparr>msg_z := arr3_get (data st) 2\<rparr>\<rparr>;
          st = esp_now_send broadcastAddress (myData st) st
      in st\<lparr>radio := WIFI_OFF\<rparr>)"

subsection \<open>Boot sequence (\<open>setup\<close>)\<close>

text \<open>
  What the environment answers during \<open>setup\<close>: the \<open>k\<close>-th call of \<open>WiFi.status()\<close>
  (true for \<open>WL_CONNECTED\<close>), the \<open>n\<close>-th call of \<open>getLocalTime\<close>, and whether
  \<open>esp_now_init\<close>, \<open>esp_now_add_peer\<close>, \<open>myAdxl.begin\<close>, \<open>sd.begin\<close> and \<open>file.open\<close>
  succeed.
\<close>

record boot_env =
  wifi_status :: "nat \<Rightarrow> bool"
  clock :: "nat \<Rightarrow> tm option"
  esp_now_init_ok :: bool
  esp_now_add_peer_ok :: bool
  adxl_begin_ok :: bool
  sd_begin_ok :: bool
  file_open_ok :: bool

text \<open>
  \<open>while (WiFi.status() != WL_CONNECTED) { delay(500); Serial.print("."); }\<close>, from the
  \<open>k\<close>-th status query on. The loop need not end: \<open>None\<close> is the loop that runs forever.
\<close>

partial_function (option) wifi_wait :: "(nat \<Rightarrow> bool) \<Rightarrow> nat \<Rightarrow> 'f state \<Rightarrow> 'f state option" where
  "wifi_wait status k st =
     (if status k then Some st else wifi_wait status (Suc k) (Serial_print ''.'' st))"

text \<open>
  \<open>retry_time: printLocalTime(); if (yeart == 0) goto retry_time;\<close>, from the \<open>n\<close>-th
  clock query on. The result is the number of clock queries made so far and the state at
  the exit of the loop; \<open>None\<close> is the loop that runs forever.
\<close>

partial_function (option) retry_time ::
  "(nat \<Rightarrow> tm option) \<Rightarrow> nat \<Rightarrow> 'f state \<Rightarrow> (nat \<times> 'f state) option" where
  "retry_time clk n st =
     (let st = printLocalTime (clk n) st
      in if yeart st = 0 then retry_time clk (Suc n) st else Some (Suc n, st))"

text \<open>
  The part of \<open>setup\<close> that follows the retry loop: the log file name, ESP-NOW, the
  sensor, the SD card with the header row, the test send and the launch of the three
  tasks, one handle after the other in the order \<open>Task1\<close>, \<open>Task2\<close>, \<open>Task3\<close>. A \<open>return\<close> of \<open>setup\<close> is \<open>Some (Inr st)\<close>, a halt is \<open>Some (Inl e)\<close>, and
  \<open>while (1);\<close> after a failed \<open>myAdxl.begin()\<close> is \<open>None\<close>. The float literal \<open>5\<close>
  is the numeral \<open>5\<close> of the float type.
\<close>

definition setup_after_retry ::
  "boot_env \<Rightarrow> ('f::numeral) state \<Rightarrow> (stop + 'f state) option" where
  "setup_after_retry env st =
     (case sprintf_to ''cap'' (format_cap (yeart st) (montht st) (dayt st)) of
        Inl e \<Rightarrow> Some (Inl e)
      | Inr c \<Rightarrow>
          (let st = st\<lparr>cap := c\<rparr>;
               st = st\<lparr>radio := WIFI_OFF\<rparr>;
               st = st\<lparr>radio := WIFI_STA\<rparr>
           in if \<not> esp_now_init_ok env
              then Some (Inr (Serial_println ''Error initializing ESP-NOW'' st))
              else
                (let st = st\<lparr>peerInfo := (peerInfo st)\<lparr>peer_addr := take 6 broadcastAddress\<rparr>\<rparr>;
                     st = st\<lparr>peerInfo := (peerInfo st)\<lparr>channel := 0\<rparr>\<rparr>;
                     st = st\<lparr>peerInfo := (peerInfo st)\<lparr>encrypt := False\<rparr>\<rparr>
                 in if \<not> esp_now_add_peer_ok env
                    then Some (Inr (Serial_println ''Failed to add peer'' st))
                    else
                      (let st = st\<lparr>esp_now_peers := esp_now_peers st @ [peerInfo st]\<rparr>
                       in if \<not> adxl_begin_ok env then None
                          else
                            (let st = standby st;
                                 st = st\<lparr>myAdxl := (myAdxl st)\<lparr>adxl_settings :=
                                        adxl_settings (myAdxl st) @
                                        [RANGE_2_G, BW_50, FullResBit True]\<rparr>\<rparr>;
                                 st = measureModeOn st
                             in if \<not> sd_begin_ok env then Some (Inl InitErrorHalt)
                                else
                                  (case (if sd_files st (cap st) = None
                                         then (if \<not> file_open_ok env
                                               then Inl (Halted ''!file.open'')
                                               else
                                                 (case sprintf_to ''header''
                                                         (format_header ''Date'' ''X''
                                                            ''Y'' ''Z'') of
                                                    Inl e \<Rightarrow> Inl e
                                                  | Inr h \<Rightarrow>
                                                      (let st = open_append (cap st) st;
                                                           st = st\<lparr>header := h\<rparr>;
                                                           st = append_text (cap st) (header st) st;
                                                           st = append_text (cap st)
                                                                  [CHR 0x0D, CHR 0x0A] st
                                                       in Inr st)))
                                         else Inr st) of
                                     Inl e \<Rightarrow> Some (Inl e)
                                   | Inr st \<Rightarrow>
                                       (let st = st\<lparr>myData := (myData st)\<lparr>msg_id := 11\<rparr>\<rparr>;
                                            st = st\<lparr>myData := (myData st)\<lparr>msg_x := 5\<rparr>\<rparr>;
                                            st = st\<lparr>myData := (myData st)\<lparr>msg_y := 5\<rparr>\<rparr>;
                                            st = st\<lparr>myData := (myData st)\<lparr>msg_z := 5\<rparr>\<rparr>;
                                            st = esp_now_send broadcastAddress (myData st) st;
                                            st = st\<lparr>radio := WIFI_OFF\<rparr>;
                                            st = st\<lparr>Task1 := Running\<rparr>;
                                            st = st\<lparr>Task2 := Running\<rparr>;
                                            st = st\<lparr>Task3 := Running\<rparr>
                                        in Some (Inr st))))))))"

text \<open>
  \<open>setup\<close> (named \<open>setup_boot\<close> here): the Wi-Fi wait, the retry loop on the clock, then the rest. \<open>Wire.begin\<close>,
  \<open>Serial.begin\<close> and \<open>configTime\<close> have no effect on the state; \<open>WiFi.begin\<close> puts the
  radio into station mode.
\<close>

definition setup_boot :: "boot_env \<Rightarrow> ('f::numeral) state \<Rightarrow> (stop + 'f state) option" where
  "setup_boot env st =
     do {
       st \<leftarrow> wifi_wait (wifi_status env) 0
               (Serial_print ''Connecting to Wi-Fi'' (st\<lparr>radio := WIFI_STA\<rparr>));
       (n, st) \<leftarrow> retry_time (clock env) 0 st;
       setup_after_retry env st
     }"

text \<open>
  The globals of a C++ program start zero-initialised; nothing has been sent or printed.
  The SD card holds \<open>files\<close>. The sensor powers up in standby.
\<close>

definition boot_state :: "(string \<rightharpoonup> string) \<Rightarrow> ('f::zero) state" where
  "boot_state files =
     \<lparr>mint = 0, sect = 0, hourt = 0, dayt = 0, montht = 0, yeart = 0,
      gpsDate = [], header = [], Date = [], cap = [],
      Task1 = Not_created, Task2 = Not_created, Task3 = Not_created,
      data = Arr3 0 0 0,
      myData = \<lparr>msg_id = 0, msg_x = 0, msg_y = 0, msg_z = 0\<rparr>,
      myAdxl = \<lparr>adxl_x = 0, adxl_y = 0, adxl_z = 0, adxl_mode = Standby, adxl_settings = []\<rparr>,
      peerInfo = \<lparr>peer_addr = replicate 6 0, channel = 0, encrypt = False\<rparr>,
      sd_files = files,
      esp_now_peers = [],
      esp_now_sent = [],
      radio = WIFI_OFF,
      serial = []\<rparr>"

text \<open>
  A clock query after which the cached year is still the 0 it has at boot: a failed
  query (\<open>printLocalTime\<close> returns early), or an answer whose year, \<open>tm_year + 1900\<close>,
  is 0.
\<close>

definition yields_year_0 :: "tm option \<Rightarrow> bool" where
  "yields_year_0 timeinfo =
     (case timeinfo of None \<Rightarrow> True | Some t \<Rightarrow> tm_year t + 1900 = 0)"

subsection \<open>Runs of the three tasks\<close>

text \<open>
  After \<open>setup\<close> the three loops run side by side. A run is any sequence of their
  iterations, each with what the environment answers in it; it ends early when an
  iteration restarts or halts the device or overruns an array.
\<close>

datatype 'f iteration = Sampler "'f sampler_env" | Lifecycle "tm option" | Broadcast

fun iterate :: "('f \<Rightarrow> cint) \<Rightarrow> 'f iteration \<Rightarrow> 'f state \<Rightarrow> stop + 'f state" where
  "iterate int_of_float (Sampler env) st = Task1code int_of_float env st"
| "iterate int_of_float (Lifecycle timeinfo) st = Task2code timeinfo st"
| "iterate int_of_float Broadcast st = Inr (Task3code st)"

fun run :: "('f \<Rightarrow> cint) \<Rightarrow> 'f iteration list \<Rightarrow> 'f state \<Rightarrow> stop + 'f state" where
  "run int_of_float [] st = Inr st"
| "run int_of_float (i # is) st =
     (case iterate int_of_float i st of
        Inl e \<Rightarrow> Inl e
      | Inr st' \<Rightarrow> run int_of_float is st')"

subsection \<open>Example inputs\<close>

text \<open>
  In the examples the float type is \<open>real\<close>, and \<open>int(...)\<close> of a float that is in the
  range of \<open>int\<close> drops the fraction (truncation towards zero).
\<close>

definition c_trunc :: "real \<Rightarrow> cint" where
  "c_trunc r = word_of_int (if r < 0 then - \<lfloor>- r\<rfloor> else \<lfloor>r\<rfloor>)"

text \<open>A clock answer on 15 August 2025 at the given time of day.\<close>

definition clock_at :: "cint \<Rightarrow> cint \<Rightarrow> cint \<Rightarrow> tm" where
  "clock_at h m s =
     \<lparr>tm_sec = s, tm_min = m, tm_hour = h, tm_mday = 15, tm_mon = 7, tm_year = 125\<rparr>"

text \<open>
  The state of a device that booted on 15 August 2025 at 12:34:56 with an empty card and
  has not logged a sample yet.
\<close>

definition logging_state :: "real state" where
  "logging_state =
     \<lparr>mint = 34, sect = 56, hourt = 12, dayt = 15, montht = 8, yeart = 2025,
      gpsDate = [], header = ''Date,X,Y,Z,'', Date = [], cap = ''/test2025815.csv'',
      Task1 = Running, Task2 = Running, Task3 = Running,
      data = Arr3 0 0 0,
      myData = \<lparr>msg_id = 11, msg_x = 5, msg_y = 5, msg_z = 5\<rparr>,
      myAdxl = \<lparr>adxl_x = 0, adxl_y = 0, adxl_z = 0, adxl_mode = Measure,
                adxl_settings = [RANGE_2_G, BW_50, FullResBit True]\<rparr>,
      peerInfo = \<lparr>peer_addr = broadcastAddress, channel = 0, encrypt = False\<rparr>,
      sd_files = [''/test2025815.csv'' \<mapsto> ''Date,X,Y,Z,'' @ [CHR 0x0D, CHR 0x0A]],
      esp_now_peers = [\<lparr>peer_addr = broadcastAddress, channel = 0, encrypt = False\<rparr>],
      esp_now_sent = [(broadcastAddress, \<lparr>msg_id = 11, msg_x = 5, msg_y = 5, msg_z = 5\<rparr>)],
      radio = WIFI_OFF,
      serial = ''Connecting to Wi-Fi..''\<rparr>"

text \<open>
  The boot environment that leads there: Wi-Fi connects at the third status query, the
  clock query fails three times and then answers, and every initialisation succeeds.
\<close>

definition good_boot :: boot_env where
  "good_boot =
     \<lparr>wifi_status = (\<lambda>k. 2 \<le> k),
      clock = (\<lambda>n. if n < 3 then None else Some (clock_at 12 34 56)),
      esp_now_init_ok = True, esp_now_add_peer_ok = True, adxl_begin_ok = True,
      sd_begin_ok = True, file_open_ok = True\<rparr>"

text \<open>
  A state whose calendar fields print in so few characters that a log line fits
  \<open>gpsDate\<close>, and sampler environments on it.
\<close>

definition short_date_state :: "real state" where
  "short_date_state =
     logging_state\<lparr>yeart := 5, montht := 1, dayt := 2, hourt := 3, mint := 4, sect := 5\<rparr>"

definition sample_env :: "bool \<Rightarrow> bool \<Rightarrow> bool \<Rightarrow> real sampler_env" where
  "sample_env ready opened written =
     \<lparr>dataReady = ready, accel = (3/2, - 1/2, 15/4), open_ok = opened, write_ok = written\<rparr>"

text \<open>
  The state after one sampling iteration on \<open>short_date_state\<close> with the reading
  (1.5, -0.5, 3.75) and a failed write.
\<close>

definition short_date_sampled :: "real state" where
  "short_date_sampled =
     short_date_state\<lparr>
       myAdxl := (myAdxl short_date_state)\<lparr>adxl_x := 3/2, adxl_y := - 1/2, adxl_z := 15/4\<rparr>,
       data := Arr3 (3/2) (- 1/2) (15/4),
       Date := ''5/1/2 3:4:5'',
       gpsDate := ''5/1/2 3:4:5,1,0,3,'' @ [CHR 0x0A]\<rparr>"

text \<open>A boot environment in which the clock never synchronises.\<close>

definition never_synced :: boot_env where
  "never_synced = good_boot\<lparr>clock := (\<lambda>n. None)\<rparr>"

text \<open>
  A boot on the same day at 21:12:10. \<open>setup\<close> creates \<open>Task2\<close> (line 236) before
  \<open>Task3\<close> (line 237): \<open>Task3_not_created\<close> is the state between the two lines, in which
  \<open>Task2code\<close> can run its first iteration while the handle \<open>Task3\<close> is still NULL.
\<close>

definition boot_at_suspend_time :: boot_env where
  "boot_at_suspend_time = good_boot\<lparr>clock := (\<lambda>n. Some (clock_at 21 12 10))\<rparr>"

definition Task3_not_created :: "real state" where
  "Task3_not_created =
     logging_state\<lparr>hourt := 21, mint := 12, sect := 10, Task3 := Not_created\<rparr>"

section \<open>Properties\<close>

subsection \<open>Lifecycle controller\<close>

lemma suspend_tasks_snapshot: "snapshot (suspend_tasks st) = snapshot st"
  by (simp add: snapshot_def suspend_tasks_def vTaskSuspend_NULL_def standby_def
      Serial_println_def Let_def)

lemma resume_tasks_snapshot: "resume_tasks st = Inr st' \<Longrightarrow> snapshot st' = snapshot st"
  by (auto simp add: snapshot_def resume_tasks_def measureModeOn_def Serial_println_def Let_def
      split: if_splits)

lemma suspend_tasks_created:
  assumes "Task1 st \<noteq> Not_created" and "Task3 st \<noteq> Not_created"
  shows "Task1 (suspend_tasks st) = Suspended"
    and "Task3 (suspend_tasks st) = Suspended"
    and "adxl_mode (myAdxl (suspend_tasks st)) = Standby"
  using assms by (simp_all add: suspend_tasks_def standby_def Serial_println_def Let_def)

lemma resume_tasks_created:
  assumes "Task1 st \<noteq> Not_created" and "Task3 st \<noteq> Not_created"
  shows "\<exists>st'. resume_tasks st = Inr st' \<and> Task1 st' = Running \<and> Task3 st' = Running
           \<and> adxl_mode (myAdxl st') = Measure"
  using assms by (simp add: resume_tasks_def measureModeOn_def Serial_println_def Let_def)

lemma printLocalTime_frame:
  "Task1 (printLocalTime ti st) = Task1 st"
  "Task3 (printLocalTime ti st) = Task3 st"
  "myAdxl (printLocalTime ti st) = myAdxl st"
  by (simp_all add: printLocalTime_def split: option.split)

lemma suspend_tasks_time:
  "hourt (suspend_tasks st) = hourt st" "mint (suspend_tasks st) = mint st"
  "sect (suspend_tasks st) = sect st"
  using suspend_tasks_snapshot [of st] by (simp_all add: snapshot_def)

lemma resume_tasks_time:
  assumes "resume_tasks st = Inr st'"
  shows "hourt st' = hourt st" and "mint st' = mint st" and "sect st' = sect st"
  using resume_tasks_snapshot [OF assms] by (simp_all add: snapshot_def)

lemma Task2code_lifecycle_tick:
  "Task2code timeinfo st =
     lifecycle_tick (snapshot (printLocalTime timeinfo st)) (printLocalTime timeinfo st)"
proof -
  define s1 where "s1 = printLocalTime timeinfo st"
  consider (suspend) "hourt s1 = 21" "mint s1 = 12" "sect s1 = 10"
    | (resume) "hourt s1 = 6" "mint s1 = 12" "sect s1 = 10"
    | (other) "\<not> (hourt s1 = 21 \<and> mint s1 = 12 \<and> sect s1 = 10)"
        "\<not> (hourt s1 = 6 \<and> mint s1 = 12 \<and> sect s1 = 10)"
    by blast
  then have "Task2code timeinfo st = lifecycle_tick (snapshot s1) s1"
  proof cases
    case suspend
    then show ?thesis
      by (simp add: Task2code_def lifecycle_tick_def snapshot_def Let_def suspend_tasks_time
          s1_def [symmetric])
  next
    case resume
    show ?thesis
    proof (cases "resume_tasks s1")
      case (Inl e)
      with resume show ?thesis
        by (simp add: Task2code_def lifecycle_tick_def snapshot_def Let_def s1_def [symmetric])
    next
      case (Inr s3)
      with resume resume_tasks_time [OF Inr] show ?thesis
        by (simp add: Task2code_def lifecycle_tick_def snapshot_def Let_def s1_def [symmetric])
    qed
  next
    case other
    then show ?thesis
      by (auto simp add: Task2code_def lifecycle_tick_def snapshot_def Let_def
          s1_def [symmetric])
  qed
  then show ?thesis by (simp add: s1_def)
qed

text \<open>
  Claim C1. A tick of \<open>Task2code\<close> is the spec's tick on the calendar fields as they are
  after the one call of \<open>printLocalTime\<close> at its start: Suspend, then Resume, then Restart,
  each decided by exact match of that one (hour, minute, second) triple. When the clock
  query succeeds the triple is the one it delivered. A triple equal to 06:16:10 or
  06:18:10 ends the tick in a restart, whatever the rest of the state is.
\<close>

theorem Task2code_single_snapshot_in_order:
  "Task2code timeinfo st =
     lifecycle_tick (snapshot (printLocalTime timeinfo st)) (printLocalTime timeinfo st)
   \<and> (\<forall>t. timeinfo = Some t \<longrightarrow>
          snapshot (printLocalTime timeinfo st) = (tm_hour t, tm_min t, tm_sec t))
   \<and> (snapshot (printLocalTime timeinfo st) = (6, 16, 10) \<or>
       snapshot (printLocalTime timeinfo st) = (6, 18, 10)
        \<longrightarrow> Task2code timeinfo st = Inl Restart)"
proof (intro conjI allI impI)
  show tick: "Task2code timeinfo st =
     lifecycle_tick (snapshot (printLocalTime timeinfo st)) (printLocalTime timeinfo st)"
    by (rule Task2code_lifecycle_tick)
  show "snapshot (printLocalTime timeinfo st) = (tm_hour t, tm_min t, tm_sec t)"
    if "timeinfo = Some t" for t
    using that by (simp add: snapshot_def printLocalTime_def)
  show "Task2code timeinfo st = Inl Restart"
    if "snapshot (printLocalTime timeinfo st) = (6, 16, 10) \<or>
        snapshot (printLocalTime timeinfo st) = (6, 18, 10)"
    using that unfolding tick by (auto simp add: lifecycle_tick_def Let_def)
qed

theorem Task2code_single_snapshot_in_order_witness:
  "Task2code (Some (clock_at 6 16 10)) logging_state = Inl Restart
   \<and> Task2code (Some (clock_at 6 18 10)) logging_state = Inl Restart
   \<and> snapshot (printLocalTime (Some (clock_at 6 16 10)) logging_state) = (6, 16, 10)"
proof -
  have a: "snapshot (printLocalTime (Some (clock_at 6 16 10)) logging_state) = (6, 16, 10)"
    by (simp add: snapshot_def printLocalTime_def clock_at_def)
  have b: "snapshot (printLocalTime (Some (clock_at 6 18 10)) logging_state) = (6, 18, 10)"
    by (simp add: snapshot_def printLocalTime_def clock_at_def)
  have r1: "Task2code (Some (clock_at 6 16 10)) logging_state = Inl Restart"
    using a Task2code_single_snapshot_in_order [of "Some (clock_at 6 16 10)" logging_state]
    by blast
  have r2: "Task2code (Some (clock_at 6 18 10)) logging_state = Inl Restart"
    using b Task2code_single_snapshot_in_order [of "Some (clock_at 6 18 10)" logging_state]
    by blast
  from r1 r2 a show ?thesis by blast
qed

text \<open>
  Claim C2. When the (hour, minute, second) triple after the refresh is none of the four
  configured trigger times, the tick runs to its end, and the lifecycle states of
  \<open>Task1\<close> (sampler) and \<open>Task3\<close> (broadcaster) and the power mode of the sensor are
  as they were before the tick.
\<close>

theorem Task2code_no_trigger_frame:
  assumes "snapshot (printLocalTime timeinfo st) \<notin> set trigger_times"
  shows "Task2code timeinfo st = Inr (printLocalTime timeinfo st)
         \<and> Task1 (printLocalTime timeinfo st) = Task1 st
         \<and> Task3 (printLocalTime timeinfo st) = Task3 st
         \<and> adxl_mode (myAdxl (printLocalTime timeinfo st)) = adxl_mode (myAdxl st)"
  using assms
  by (simp add: Task2code_lifecycle_tick lifecycle_tick_def trigger_times_def Let_def
      printLocalTime_frame)

theorem Task2code_no_trigger_frame_witness:
  "snapshot (printLocalTime (Some (clock_at 12 0 0)) logging_state) \<notin> set trigger_times
   \<and> Task2code (Some (clock_at 12 0 0)) logging_state
       = Inr (printLocalTime (Some (clock_at 12 0 0)) logging_state)
   \<and> Task1 (printLocalTime (Some (clock_at 12 0 0)) logging_state) = Running
   \<and> Task3 (printLocalTime (Some (clock_at 12 0 0)) logging_state) = Running
   \<and> adxl_mode (myAdxl (printLocalTime (Some (clock_at 12 0 0)) logging_state)) = Measure"
proof -
  have h: "snapshot (printLocalTime (Some (clock_at 12 0 0)) logging_state) \<notin> set trigger_times"
    by (simp add: snapshot_def printLocalTime_def clock_at_def trigger_times_def)
  have l: "Task1 logging_state = Running" "Task3 logging_state = Running"
    "adxl_mode (myAdxl logging_state) = Measure"
    by (simp_all add: logging_state_def)
  from h l Task2code_no_trigger_frame [OF h] show ?thesis by simp
qed

text \<open>
  Claim C10. When \<open>getLocalTime\<close> returns false, \<open>printLocalTime\<close> changes nothing (so
  none of the six cached calendar fields), and the tick of \<open>Task2code\<close> that made the
  query decides its three triggers on the triple cached before.
\<close>

theorem printLocalTime_failure_keeps_snapshot:
  "printLocalTime None st = st
   \<and> Task2code None st = lifecycle_tick (hourt st, mint st, sect st) st"
  by (simp add: Task2code_lifecycle_tick snapshot_def printLocalTime_def)


theorem printLocalTime_failure_keeps_snapshot_witness:
  "printLocalTime None (logging_state\<lparr>hourt := 21, mint := 12, sect := 10\<rparr>)
     = logging_state\<lparr>hourt := 21, mint := 12, sect := 10\<rparr>
   \<and> Task2code None (logging_state\<lparr>hourt := 21, mint := 12, sect := 10\<rparr>)
     = Inr (suspend_tasks (logging_state\<lparr>hourt := 21, mint := 12, sect := 10\<rparr>))"
  using printLocalTime_failure_keeps_snapshot
          [of "logging_state\<lparr>hourt := 21, mint := 12, sect := 10\<rparr>"]
  by (simp add: lifecycle_tick_def)

text \<open>
  Once both handles are created, the suspend tick leaves \<open>Task1\<close> and \<open>Task3\<close> suspended
  with the sensor in standby, the resume tick leaves both running with the sensor
  measuring, and every tick that runs to its end leaves the two tasks and the sensor
  suspended together, running together, or as they were.
\<close>

lemma Task2code_created_tasks_transition_together:
  assumes "Task1 st \<noteq> Not_created" and "Task3 st \<noteq> Not_created"
  shows "(snapshot (printLocalTime timeinfo st) = (21, 12, 10) \<longrightarrow>
            Task2code timeinfo st = Inr (suspend_tasks (printLocalTime timeinfo st))
          \<and> Task1 (suspend_tasks (printLocalTime timeinfo st)) = Suspended
          \<and> Task3 (suspend_tasks (printLocalTime timeinfo st)) = Suspended
          \<and> adxl_mode (myAdxl (suspend_tasks (printLocalTime timeinfo st))) = Standby)
       \<and> (snapshot (printLocalTime timeinfo st) = (6, 12, 10) \<longrightarrow>
            (\<exists>st'. Task2code timeinfo st = Inr st'
               \<and> Task1 st' = Running \<and> Task3 st' = Running
               \<and> adxl_mode (myAdxl st') = Measure))
       \<and> (\<forall>st'. Task2code timeinfo st = Inr st' \<longrightarrow>
            (Task1 st' = Suspended \<and> Task3 st' = Suspended
               \<and> adxl_mode (myAdxl st') = Standby)
          \<or> (Task1 st' = Running \<and> Task3 st' = Running
               \<and> adxl_mode (myAdxl st') = Measure)
          \<or> (Task1 st' = Task1 st \<and> Task3 st' = Task3 st
               \<and> adxl_mode (myAdxl st') = adxl_mode (myAdxl st)))"
proof -
  let ?s1 = "printLocalTime timeinfo st"
  have created: "Task1 ?s1 \<noteq> Not_created" "Task3 ?s1 \<noteq> Not_created"
    using assms by (simp_all add: printLocalTime_frame)
  note sus = suspend_tasks_created [OF created]
  from resume_tasks_created [OF created] obtain r where
    res: "resume_tasks ?s1 = Inr r" "Task1 r = Running" "Task3 r = Running"
      "adxl_mode (myAdxl r) = Measure"
    by blast
  have a: "Task2code timeinfo st = Inr (suspend_tasks ?s1)" if "snapshot ?s1 = (21, 12, 10)"
    using that by (simp add: Task2code_lifecycle_tick lifecycle_tick_def Let_def)
  have b: "Task2code timeinfo st = Inr r" if "snapshot ?s1 = (6, 12, 10)"
    using that res(1) by (simp add: Task2code_lifecycle_tick lifecycle_tick_def Let_def)
  have c: "st' = suspend_tasks ?s1 \<or> st' = r \<or> st' = ?s1"
    if "Task2code timeinfo st = Inr st'" for st'
    using that res(1)
    by (auto simp add: Task2code_lifecycle_tick lifecycle_tick_def Let_def
        split: if_splits sum.splits)
  have d: "(Task1 st' = Suspended \<and> Task3 st' = Suspended
               \<and> adxl_mode (myAdxl st') = Standby)
          \<or> (Task1 st' = Running \<and> Task3 st' = Running
               \<and> adxl_mode (myAdxl st') = Measure)
          \<or> (Task1 st' = Task1 st \<and> Task3 st' = Task3 st
               \<and> adxl_mode (myAdxl st') = adxl_mode (myAdxl st))"
    if "Task2code timeinfo st = Inr st'" for st'
    using c [OF that] sus res by (auto simp add: printLocalTime_frame)
  from a b d sus res show ?thesis by blast
qed

lemmas lifecycle_eval = Task2code_def suspend_tasks_def vTaskSuspend_NULL_def standby_def
  Serial_println_def printLocalTime_def clock_at_def Let_def

text \<open>
  Claim C3. The claim fails in the boot window. \<open>setup\<close> creates \<open>Task2\<close> before
  \<open>Task3\<close>; in a first tick of \<open>Task2code\<close> that reads 21:12:10 while the handle
  \<open>Task3\<close> is still NULL, \<open>vTaskSuspend(Task1)\<close> suspends the sampler, and
  \<open>vTaskSuspend(Task3)\<close> suspends the lifecycle task itself: the broadcaster is not
  suspended and the sensor is not put into standby.
\<close>

theorem Task2code_suspends_Task1_without_Task3:
  "Task2code (Some (clock_at 21 12 10)) Task3_not_created
     = Inr (Task3_not_created\<lparr>Task1 := Suspended, Task2 := Suspended\<rparr>)
   \<and> Task1 (Task3_not_created\<lparr>Task1 := Suspended, Task2 := Suspended\<rparr>) = Suspended
   \<and> Task3 (Task3_not_created\<lparr>Task1 := Suspended, Task2 := Suspended\<rparr>) = Not_created
   \<and> adxl_mode (myAdxl (Task3_not_created\<lparr>Task1 := Suspended, Task2 := Suspended\<rparr>))
       = Measure"
  by (simp add: lifecycle_eval Task3_not_created_def logging_state_def)

subsection \<open>Sampler\<close>

lemmas format_eval = format_Date_def format_gpsDate_def format_cap_def format_header_def
  sprintf_to_def buf_size_def show_cint_def show_int_def show_nat.simps digit_char_def

lemma arr3_set_all:
  "arr3_set (arr3_set (arr3_set d 0 x) 1 y) 2 z = Arr3 x y z"
  "arr3_set (arr3_set (arr3_set d 0 x) (Suc 0) y) 2 z = Arr3 x y z"
  by (cases d, simp)+

text \<open>The branch of \<open>Task1code\<close> taken when the sensor has data, with the lets resolved.\<close>

lemma Task1code_ready:
  assumes "dataReady env"
  shows "Task1code f env st =
     (case sprintf_to ''Date''
             (format_Date (yeart st) (montht st) (dayt st) (hourt st) (mint st) (sect st)) of
        Inl e \<Rightarrow> Inl e
      | Inr d \<Rightarrow>
          (case sprintf_to ''gpsDate''
                  (format_gpsDate d (f (fst (accel env))) (f (fst (snd (accel env))))
                     (f (snd (snd (accel env))))) of
             Inl e \<Rightarrow> Inl e
           | Inr g \<Rightarrow>
               if \<not> open_ok env then Inl (Halted ''open failed'')
               else Inr (let s = open_append (cap st)
                                   (st\<lparr>myAdxl := (myAdxl st)\<lparr>adxl_x := fst (accel env),
                                          adxl_y := fst (snd (accel env)),
                                          adxl_z := snd (snd (accel env))\<rparr>,
                                        data := Arr3 (fst (accel env)) (fst (snd (accel env)))
                                                  (snd (snd (accel env))),
                                        Date := d, gpsDate := g\<rparr>)
                         in if write_ok env then append_text (cap st) g s else s)))"
  using assms
  by (cases "accel env")
     (simp add: Task1code_def Let_def readAccel_def arr3_set_all open_append_def
        append_text_def split: sum.split option.split)

lemma open_append_fields:
  "data (open_append n st) = data st" "Date (open_append n st) = Date st"
  "gpsDate (open_append n st) = gpsDate st" "cap (open_append n st) = cap st"
  "sd_files (open_append n st) n = Some (case sd_files st n of None \<Rightarrow> [] | Some old \<Rightarrow> old)"
  by (simp_all add: open_append_def split: option.split)

lemma append_text_fields:
  "data (append_text n s st) = data st" "Date (append_text n s st) = Date st"
  "gpsDate (append_text n s st) = gpsDate st" "cap (append_text n s st) = cap st"
  "sd_files st n = Some old \<Longrightarrow> sd_files (append_text n s st) n = Some (old @ s)"
  by (simp_all add: append_text_def split: option.split)

text \<open>
  Claim C6. When \<open>dataReady()\<close> is false the iteration returns at once with the state it
  started in: no sensor read, no write to \<open>data\<close>, no change of the card's files.
\<close>

theorem Task1code_not_ready_frame:
  "\<not> dataReady env \<Longrightarrow> Task1code int_of_float env st = Inr st"
  by (simp add: Task1code_def)

theorem Task1code_not_ready_frame_witness:
  "\<not> dataReady (sample_env False True True)
   \<and> Task1code c_trunc (sample_env False True True) logging_state = Inr logging_state"
proof -
  have h: "\<not> dataReady (sample_env False True True)"
    by (simp add: sample_env_def)
  from h Task1code_not_ready_frame [OF h] show ?thesis by simp
qed

lemmas sampler_eval = Task1code_def sample_env_def short_date_state_def logging_state_def
  short_date_sampled_def readAccel_def Let_def c_trunc_def
  open_append_def append_text_def

lemma length_format_gpsDate: "length d < length (format_gpsDate d x y z)"
  by (simp add: format_gpsDate_def)








text \<open>
  What the code does where the log line is short enough for \<open>gpsDate\<close> (a date with a
  one-digit year; no date after a real boot is that short). In an iteration that samples
  and runs to its end, \<open>data\<close> holds the three values of the one \<open>readAccel()\<close>, the
  line in \<open>gpsDate\<close> carries the \<open>int\<close> conversions of exactly the three values now in
  \<open>data\<close>, and that line is what a successful write appends to the log file.
\<close>

lemma Task1code_fitting_line_from_published_sample:
  assumes "dataReady env" and "Task1code int_of_float env st = Inr st'"
  shows "data st' = Arr3 (fst (accel env)) (fst (snd (accel env))) (snd (snd (accel env)))
       \<and> gpsDate st' =
           format_gpsDate (Date st')
             (int_of_float (arr3_get (data st') 0))
             (int_of_float (arr3_get (data st') 1))
             (int_of_float (arr3_get (data st') 2))
       \<and> (write_ok env \<longrightarrow>
            sd_files st' (cap st) =
              Some ((case sd_files st (cap st) of None \<Rightarrow> [] | Some old \<Rightarrow> old) @ gpsDate st'))"
proof -
  let ?x = "fst (accel env)" and ?y = "fst (snd (accel env))" and ?z = "snd (snd (accel env))"
  let ?d = "format_Date (yeart st) (montht st) (dayt st) (hourt st) (mint st) (sect st)"
  let ?g = "format_gpsDate ?d (int_of_float ?x) (int_of_float ?y) (int_of_float ?z)"
  let ?s0 = "st\<lparr>myAdxl := (myAdxl st)\<lparr>adxl_x := ?x, adxl_y := ?y, adxl_z := ?z\<rparr>,
                data := Arr3 ?x ?y ?z, Date := ?d, gpsDate := ?g\<rparr>"
  let ?s1 = "open_append (cap st) ?s0"
  from assms have st': "st' = (if write_ok env then append_text (cap st) ?g ?s1 else ?s1)"
    by (simp add: Task1code_ready sprintf_to_def Let_def split: if_splits)
  have 1: "data st' = Arr3 ?x ?y ?z"
    by (simp add: st' open_append_fields append_text_fields)
  have 2: "Date st' = ?d" "gpsDate st' = ?g"
    by (simp_all add: st' open_append_fields append_text_fields)
  have 3: "sd_files st' (cap st) =
       Some ((case sd_files st (cap st) of None \<Rightarrow> [] | Some old \<Rightarrow> old) @ gpsDate st')"
    if "write_ok env"
  proof -
    have "sd_files ?s1 (cap st) = Some (case sd_files st (cap st) of None \<Rightarrow> [] | Some old \<Rightarrow> old)"
      by (simp add: open_append_fields)
    then show ?thesis
      using that 2 by (simp add: st' append_text_fields)
  qed
  from 1 2 3 show ?thesis by simp
qed


text \<open>
  Where the line fits, a log file that cannot be opened halts the iteration through
  \<open>error("open failed")\<close>, and with the file open and the write succeeding the line is
  appended.
\<close>

lemma Task1code_fitting_line_open_failure_halts:
  assumes "dataReady env"
    and "length (format_gpsDate
                   (format_Date (yeart st) (montht st) (dayt st) (hourt st) (mint st) (sect st))
                   (f (fst (accel env))) (f (fst (snd (accel env))))
                   (f (snd (snd (accel env))))) < buf_size"
  shows "(\<not> open_ok env \<longrightarrow> Task1code f env st = Inl (Halted ''open failed''))
       \<and> (open_ok env \<and> write_ok env \<longrightarrow>
            (\<exists>st'. Task1code f env st = Inr st'
               \<and> sd_files st' (cap st) =
                   Some ((case sd_files st (cap st) of None \<Rightarrow> [] | Some old \<Rightarrow> old) @
                         format_gpsDate
                           (format_Date (yeart st) (montht st) (dayt st)
                              (hourt st) (mint st) (sect st))
                           (f (fst (accel env))) (f (fst (snd (accel env))))
                           (f (snd (snd (accel env)))))))"
proof -
  let ?d = "format_Date (yeart st) (montht st) (dayt st) (hourt st) (mint st) (sect st)"
  let ?g = "format_gpsDate ?d (f (fst (accel env))) (f (fst (snd (accel env))))
              (f (snd (snd (accel env))))"
  have fitg: "length ?g < buf_size" by (rule assms(2))
  have fitd: "length ?d < buf_size"
    using fitg length_format_gpsDate [of ?d] by (meson less_trans)
  have b: "Task1code f env st = Inl (Halted ''open failed'')" if "\<not> open_ok env"
    using that fitg fitd assms(1) by (simp add: Task1code_ready sprintf_to_def)
  have c: "\<exists>st'. Task1code f env st = Inr st'
        \<and> sd_files st' (cap st) =
            Some ((case sd_files st (cap st) of None \<Rightarrow> [] | Some old \<Rightarrow> old) @ ?g)"
    if "open_ok env \<and> write_ok env"
    using that fitg fitd assms(1)
    by (simp add: Task1code_ready sprintf_to_def Let_def open_append_fields append_text_fields)
  from b c show ?thesis by blast
qed

text \<open>
  The result of \<open>sdout << gpsDate\<close> and of \<open>sdout.close()\<close> is not tested: where the line
  fits, with the file open and the insertion failing, the iteration runs to its end,
  nothing halts, and the card's files are what they were before the iteration.
\<close>

lemma Task1code_write_result_not_tested:
  "dataReady (sample_env True True False)
   \<and> \<not> write_ok (sample_env True True False)
   \<and> Task1code c_trunc (sample_env True True False) short_date_state = Inr short_date_sampled
   \<and> sd_files short_date_sampled = sd_files short_date_state"
  by (simp add: sampler_eval format_eval)

text \<open>
  Claim C7. On a device that booted on 15 August 2025, the first sampling iteration
  formats a log line of 26 characters into the 20 elements of \<open>gpsDate\<close>.
\<close>

theorem Task1code_log_line_overruns_gpsDate:
  "Task1code c_trunc
     \<lparr>dataReady = True, accel = (1, 2, 3), open_ok = True, write_ok = True\<rparr> logging_state
     = Inl (Buffer_overflow ''gpsDate'')
   \<and> format_gpsDate (format_Date 2025 8 15 12 34 56) 1 2 3
       = ''2025/8/15 12:34:56,1,2,3,'' @ [CHR 0x0A]
   \<and> length (format_gpsDate (format_Date 2025 8 15 12 34 56) 1 2 3) = 26"
  by (simp add: sampler_eval format_eval)




subsection \<open>Boot sequence\<close>

lemma wifi_wait_only_prints:
  assumes "wifi_wait status k st = Some st'"
  shows "\<exists>s. st' = st\<lparr>serial := s\<rparr>"
proof (rule wifi_wait.raw_induct [OF _ assms])
  fix f and status :: "nat \<Rightarrow> bool" and k and st st' :: "'a state"
  assume IH: "\<And>status k st st'. f status k st = Some st' \<Longrightarrow> \<exists>s. st' = st\<lparr>serial := s\<rparr>"
    and eq: "(if status k then Some st else f status (Suc k) (Serial_print ''.'' st)) = Some st'"
  show "\<exists>s. st' = st\<lparr>serial := s\<rparr>"
  proof (cases "status k")
    case True
    with eq have "st' = st\<lparr>serial := serial st\<rparr>" by simp
    then show ?thesis by blast
  next
    case False
    with eq have "f status (Suc k) (Serial_print ''.'' st) = Some st'" by simp
    from IH [OF this] obtain s where "st' = (Serial_print ''.'' st)\<lparr>serial := s\<rparr>" by blast
    then have "st' = st\<lparr>serial := s\<rparr>" by (simp add: Serial_print_def)
    then show ?thesis by blast
  qed
qed

lemma printLocalTime_year:
  "yeart st = 0 \<Longrightarrow> (yeart (printLocalTime ti st) = 0) = yields_year_0 ti"
  by (simp add: printLocalTime_def yields_year_0_def split: option.split)

lemma printLocalTime_twice:
  "\<not> yields_year_0 ti \<Longrightarrow> printLocalTime ti (printLocalTime ti' st) = printLocalTime ti st"
  by (cases ti; cases ti') (simp_all add: printLocalTime_def yields_year_0_def)

lemma retry_time_exit:
  assumes "yeart st = 0" and "\<forall>i<N. yields_year_0 (clk (n + i))"
    and "\<not> yields_year_0 (clk (n + N))"
  shows "retry_time clk n st = Some (Suc (n + N), printLocalTime (clk (n + N)) st)"
  using assms
proof (induction N arbitrary: n st)
  case 0
  then show ?case
    by (subst retry_time.simps) (simp add: printLocalTime_year)
next
  case (Suc N)
  let ?s = "printLocalTime (clk n) st"
  from Suc.prems have y0: "yields_year_0 (clk n)" by (metis add.right_neutral zero_less_Suc)
  with Suc.prems(1) have s0: "yeart ?s = 0" by (simp add: printLocalTime_year)
  have "\<forall>i<N. yields_year_0 (clk (Suc n + i))" using Suc.prems(2)
    by (metis Suc_less_eq add_Suc_shift)
  moreover have "\<not> yields_year_0 (clk (Suc n + N))" using Suc.prems(3) by simp
  ultimately have "retry_time clk (Suc n) ?s =
      Some (Suc (Suc n + N), printLocalTime (clk (Suc n + N)) ?s)"
    using Suc.IH [OF s0] by blast
  moreover have "printLocalTime (clk (Suc n + N)) ?s = printLocalTime (clk (Suc n + N)) st"
    using Suc.prems(3) by (simp add: printLocalTime_twice)
  ultimately show ?case
    using s0 by (subst retry_time.simps) simp
qed

lemma retry_time_forever_aux:
  assumes "retry_time clk n st = Some r"
  shows "yeart st = 0 \<longrightarrow> (\<exists>i\<ge>n. \<not> yields_year_0 (clk i))"
proof (rule retry_time.raw_induct [OF _ assms])
  fix f and clk :: "nat \<Rightarrow> tm option" and n and st :: "'a state" and r
  assume IH: "\<And>clk n st r. f clk n st = Some r \<Longrightarrow>
      yeart st = 0 \<longrightarrow> (\<exists>i\<ge>n. \<not> yields_year_0 (clk i))"
    and eq: "(let st = printLocalTime (clk n) st
              in if yeart st = 0 then f clk (Suc n) st else Some (Suc n, st)) = Some r"
  show "yeart st = 0 \<longrightarrow> (\<exists>i\<ge>n. \<not> yields_year_0 (clk i))"
  proof
    assume y: "yeart st = 0"
    show "\<exists>i\<ge>n. \<not> yields_year_0 (clk i)"
    proof (cases "yields_year_0 (clk n)")
      case True
      with y have s0: "yeart (printLocalTime (clk n) st) = 0" by (simp add: printLocalTime_year)
      with eq have "f clk (Suc n) (printLocalTime (clk n) st) = Some r" by simp
      from IH [OF this] s0 show ?thesis using Suc_leD by blast
    next
      case False
      then show ?thesis by blast
    qed
  qed
qed

lemma retry_time_forever:
  assumes "yeart st = 0" and "\<forall>i. yields_year_0 (clk i)"
  shows "retry_time clk n st = None"
proof (cases "retry_time clk n st")
  case None then show ?thesis .
next
  case (Some r)
  from retry_time_forever_aux [OF this] assms show ?thesis by blast
qed


lemma printLocalTime_keeps:
  "cap (printLocalTime ti st) = cap st"
  "Task1 (printLocalTime ti st) = Task1 st"
  "Task2 (printLocalTime ti st) = Task2 st"
  "Task3 (printLocalTime ti st) = Task3 st"
  "sd_files (printLocalTime ti st) = sd_files st"
  "esp_now_sent (printLocalTime ti st) = esp_now_sent st"
  by (simp_all add: printLocalTime_def split: option.split)

text \<open>
  Claim C4. Boot starts with the cached year 0. If the first \<open>N\<close> clock queries leave it
  at 0 and query \<open>N + 1\<close> delivers another year, the retry loop ends after exactly
  \<open>N + 1\<close> queries, in a state where the file name, the three task handles, the card
  and the list of sent packets are as at the start of the loop, and \<open>setup\<close> goes on
  from there. If every query leaves the year at 0, the loop never ends and \<open>setup\<close>
  never returns.
\<close>

theorem retry_time_waits_for_valid_year:
  assumes "yeart st = 0"
  shows "((\<forall>i<N. yields_year_0 (clock env i)) \<and> \<not> yields_year_0 (clock env N) \<longrightarrow>
            retry_time (clock env) 0 st = Some (Suc N, printLocalTime (clock env N) st)
          \<and> cap (printLocalTime (clock env N) st) = cap st
          \<and> Task1 (printLocalTime (clock env N) st) = Task1 st
          \<and> Task2 (printLocalTime (clock env N) st) = Task2 st
          \<and> Task3 (printLocalTime (clock env N) st) = Task3 st
          \<and> sd_files (printLocalTime (clock env N) st) = sd_files st
          \<and> esp_now_sent (printLocalTime (clock env N) st) = esp_now_sent st
          \<and> setup_boot env st =
              wifi_wait (wifi_status env) 0
                (Serial_print ''Connecting to Wi-Fi'' (st\<lparr>radio := WIFI_STA\<rparr>))
              \<bind> (\<lambda>s. setup_after_retry env (printLocalTime (clock env N) s)))
       \<and> ((\<forall>i. yields_year_0 (clock env i)) \<longrightarrow>
            retry_time (clock env) 0 st = None \<and> setup_boot env st = None)"
proof (intro conjI impI)
  let ?w = "wifi_wait (wifi_status env) 0
              (Serial_print ''Connecting to Wi-Fi'' (st\<lparr>radio := WIFI_STA\<rparr>))"
  have wifi_year: "yeart s = 0" if "?w = Some s" for s
  proof -
    from wifi_wait_only_prints [OF that] obtain t where
      "s = (Serial_print ''Connecting to Wi-Fi'' (st\<lparr>radio := WIFI_STA\<rparr>))\<lparr>serial := t\<rparr>"
      by blast
    with assms show ?thesis by (simp add: Serial_print_def)
  qed
  {
    assume h: "(\<forall>i<N. yields_year_0 (clock env i)) \<and> \<not> yields_year_0 (clock env N)"
    have exit: "retry_time (clock env) 0 s = Some (Suc N, printLocalTime (clock env N) s)"
      if "yeart s = 0" for s :: "'a state"
      using retry_time_exit [of s N "clock env" 0] that h by simp
    from exit [OF assms]
    show "retry_time (clock env) 0 st = Some (Suc N, printLocalTime (clock env N) st)" .
    show "cap (printLocalTime (clock env N) st) = cap st"
      "Task1 (printLocalTime (clock env N) st) = Task1 st"
      "Task2 (printLocalTime (clock env N) st) = Task2 st"
      "Task3 (printLocalTime (clock env N) st) = Task3 st"
      "sd_files (printLocalTime (clock env N) st) = sd_files st"
      "esp_now_sent (printLocalTime (clock env N) st) = esp_now_sent st"
      by (simp_all add: printLocalTime_keeps)
    show "setup_boot env st =
           ?w \<bind> (\<lambda>s. setup_after_retry env (printLocalTime (clock env N) s))"
    proof (cases ?w)
      case None
      then show ?thesis by (simp add: setup_boot_def)
    next
      case (Some s)
      with exit [OF wifi_year [OF Some]] show ?thesis by (simp add: setup_boot_def)
    qed
  }
  {
    assume h: "\<forall>i. yields_year_0 (clock env i)"
    from retry_time_forever [OF assms h]
    show "retry_time (clock env) 0 st = None" .
    show "setup_boot env st = None"
    proof (cases ?w)
      case None
      then show ?thesis by (simp add: setup_boot_def)
    next
      case (Some s)
      with retry_time_forever [OF wifi_year [OF Some] h, of 0]
      show ?thesis by (simp add: setup_boot_def)
    qed
  }
qed

lemma wifi_wait_good_boot:
  "wifi_wait (wifi_status good_boot) 0 st = Some (Serial_print ''.'' (Serial_print ''.'' st))"
  by (simp add: wifi_wait.simps good_boot_def)

lemma setup_after_retry_good_boot:
  "setup_after_retry good_boot
     (printLocalTime (Some (clock_at 12 34 56))
        (Serial_print ''.'' (Serial_print ''.''
           (Serial_print ''Connecting to Wi-Fi'' ((boot_state Map.empty)\<lparr>radio := WIFI_STA\<rparr>)))))
   = Some (Inr logging_state)"
  by (simp add: printLocalTime_def boot_state_def clock_at_def Serial_print_def
      setup_after_retry_def good_boot_def format_eval Let_def standby_def measureModeOn_def
      open_append_def append_text_def esp_now_send_def logging_state_def broadcastAddress_def)

theorem retry_time_waits_for_valid_year_witness:
  "yeart (boot_state Map.empty :: real state) = 0
   \<and> yields_year_0 (clock good_boot 0) \<and> yields_year_0 (clock good_boot 1)
   \<and> yields_year_0 (clock good_boot 2) \<and> \<not> yields_year_0 (clock good_boot 3)
   \<and> retry_time (clock good_boot) 0 (boot_state Map.empty :: real state)
       = Some (4, printLocalTime (Some (clock_at 12 34 56)) (boot_state Map.empty))
   \<and> setup_boot good_boot (boot_state Map.empty) = Some (Inr logging_state)
   \<and> (\<forall>i. yields_year_0 (clock never_synced i))
   \<and> retry_time (clock never_synced) 0 (boot_state Map.empty :: real state) = None
   \<and> setup_boot never_synced (boot_state Map.empty :: real state) = None"
proof -
  have y: "yeart (boot_state Map.empty :: real state) = 0"
    by (simp add: boot_state_def)
  have c3: "clock good_boot 3 = Some (clock_at 12 34 56)"
    by (simp add: good_boot_def)
  have h1: "\<forall>i<3. yields_year_0 (clock good_boot i)"
    by (simp add: good_boot_def yields_year_0_def)
  have h2: "\<not> yields_year_0 (clock good_boot 3)"
    by (simp add: good_boot_def yields_year_0_def clock_at_def)
  have h3: "\<forall>i. yields_year_0 (clock never_synced i)"
    by (simp add: never_synced_def yields_year_0_def)
  note t1 = retry_time_waits_for_valid_year [OF y, of 3 good_boot, THEN conjunct1, rule_format,
      OF conjI [OF h1 h2]]
  note t2 = retry_time_waits_for_valid_year [OF y, of 0 never_synced, THEN conjunct2,
      THEN mp, OF h3]
  have r: "retry_time (clock good_boot) 0 (boot_state Map.empty :: real state)
       = Some (4, printLocalTime (Some (clock_at 12 34 56)) (boot_state Map.empty))"
    using t1 c3 by simp
  have s: "setup_boot good_boot (boot_state Map.empty) = Some (Inr logging_state)"
    using t1 c3 by (simp add: wifi_wait_good_boot setup_after_retry_good_boot)
  have h0: "yields_year_0 (clock good_boot 0)" "yields_year_0 (clock good_boot 1)"
    "yields_year_0 (clock good_boot 2)"
    by (simp_all add: good_boot_def yields_year_0_def)
  from y h0 h2 h3 r s t2 show ?thesis by blast
qed

text \<open>
  The header row: a boot that gets as far as the SD card writes \<open>Date,X,Y,Z,\<close> and a
  line end into the log file when the card has no file of that name, and leaves the card
  as it is when the file exists.
\<close>

lemma setup_after_retry_header:
  assumes "setup_after_retry env st = Some (Inr st')"
    and "esp_now_init_ok env" and "esp_now_add_peer_ok env"
  shows "cap st' = format_cap (yeart st) (montht st) (dayt st)
       \<and> sd_files st' =
           (if sd_files st (cap st') = None
            then (sd_files st)(cap st' \<mapsto> ''Date,X,Y,Z,'' @ [CHR 0x0D, CHR 0x0A])
            else sd_files st)"
proof -
  let ?c = "format_cap (yeart st) (montht st) (dayt st)"
  have h: "sprintf_to ''header'' (format_header ''Date'' ''X'' ''Y'' ''Z'') = Inr ''Date,X,Y,Z,''"
    by (simp add: sprintf_to_def format_header_def buf_size_def)
  from assms(1) have c: "sprintf_to ''cap'' ?c = Inr ?c"
    by (auto simp add: setup_after_retry_def sprintf_to_def split: if_splits)
  show ?thesis
  proof (cases "sd_files st ?c = None")
    case True
    with assms c h show ?thesis
      by (auto simp add: setup_after_retry_def Let_def standby_def measureModeOn_def
          open_append_def append_text_def esp_now_send_def split: if_splits)
  next
    case False
    with assms c show ?thesis
      by (auto simp add: setup_after_retry_def Let_def standby_def measureModeOn_def
          esp_now_send_def split: if_splits)
  qed
qed

text \<open>
  The state \<open>Task3_not_created\<close> is the one \<open>setup\<close> is in before its last statement:
  a boot at 21:12:10 ends in that state with the handle \<open>Task3\<close> filled in.
\<close>

lemma setup_boot_at_suspend_time:
  "setup_boot boot_at_suspend_time (boot_state Map.empty)
     = Some (Inr (Task3_not_created\<lparr>Task3 := Running\<rparr>))"
proof -
  have w: "wifi_wait (wifi_status boot_at_suspend_time) 0 st
      = Some (Serial_print ''.'' (Serial_print ''.'' st))" for st :: "real state"
    by (simp add: wifi_wait.simps boot_at_suspend_time_def good_boot_def)
  have r: "retry_time (clock boot_at_suspend_time) 0
          (Serial_print ''.'' (Serial_print ''.''
             (Serial_print ''Connecting to Wi-Fi''
                ((boot_state Map.empty :: real state)\<lparr>radio := WIFI_STA\<rparr>))))
        = Some (1, printLocalTime (Some (clock_at 21 12 10))
             (Serial_print ''.'' (Serial_print ''.''
               (Serial_print ''Connecting to Wi-Fi''
                  ((boot_state Map.empty)\<lparr>radio := WIFI_STA\<rparr>)))))"
    by (simp add: retry_time.simps boot_at_suspend_time_def good_boot_def printLocalTime_def
        boot_state_def Serial_print_def clock_at_def)
  have a: "setup_after_retry boot_at_suspend_time
     (printLocalTime (Some (clock_at 21 12 10))
        (Serial_print ''.'' (Serial_print ''.''
           (Serial_print ''Connecting to Wi-Fi'' ((boot_state Map.empty)\<lparr>radio := WIFI_STA\<rparr>)))))
     = Some (Inr (Task3_not_created\<lparr>Task3 := Running\<rparr>))"
    by (simp add: printLocalTime_def boot_state_def clock_at_def Serial_print_def
        setup_after_retry_def boot_at_suspend_time_def good_boot_def format_eval Let_def
        standby_def measureModeOn_def open_append_def append_text_def esp_now_send_def
        Task3_not_created_def logging_state_def broadcastAddress_def)
  show ?thesis
    by (simp add: setup_boot_def w r a)
qed

subsection \<open>Broadcaster\<close>

lemma Task3code_sends:
  "esp_now_sent (Task3code st) = esp_now_sent st @ [(broadcastAddress, myData (Task3code st))]"
  "msg_id (myData (Task3code st)) = 11"
  by (simp_all add: Task3code_def esp_now_send_def Let_def)

lemma Task2code_keeps_sent:
  assumes "Task2code ti st = Inr st'"
  shows "esp_now_sent st' = esp_now_sent st"
proof -
  have p: "esp_now_sent (printLocalTime ti st) = esp_now_sent st"
    by (simp add: printLocalTime_def split: option.split)
  have s: "esp_now_sent (suspend_tasks s) = esp_now_sent s" for s :: "'a state"
    by (simp add: suspend_tasks_def vTaskSuspend_NULL_def standby_def Serial_println_def Let_def)
  have r: "esp_now_sent s' = esp_now_sent s" if "resume_tasks s = Inr s'" for s s' :: "'a state"
    using that
    by (auto simp add: resume_tasks_def measureModeOn_def Serial_println_def Let_def
        split: if_splits)
  from assms have "st' = suspend_tasks (printLocalTime ti st)
      \<or> resume_tasks (printLocalTime ti st) = Inr st' \<or> st' = printLocalTime ti st"
    by (auto simp add: Task2code_lifecycle_tick lifecycle_tick_def Let_def
        split: if_splits sum.splits)
  with p s r show ?thesis by metis
qed

lemma open_append_sent: "esp_now_sent (open_append n st) = esp_now_sent st"
  by (simp add: open_append_def split: option.split)

lemma append_text_sent: "esp_now_sent (append_text n s st) = esp_now_sent st"
  by (simp add: append_text_def split: option.split)

lemma Task1code_keeps_sent:
  assumes "Task1code f env st = Inr st'"
  shows "esp_now_sent st' = esp_now_sent st"
proof (cases "dataReady env")
  case True
  with assms show ?thesis
    by (auto simp add: Task1code_ready Let_def open_append_sent append_text_sent
        split: sum.splits if_splits)
next
  case False
  with assms show ?thesis by (simp add: Task1code_def)
qed

lemma iterate_keeps_id_11:
  assumes "iterate f i st = Inr st'" and "\<forall>p\<in>set (esp_now_sent st). msg_id (snd p) = 11"
  shows "\<forall>p\<in>set (esp_now_sent st'). msg_id (snd p) = 11"
proof (cases i)
  case (Sampler env)
  with assms show ?thesis by (simp add: Task1code_keeps_sent)
next
  case (Lifecycle ti)
  with assms show ?thesis by (simp add: Task2code_keeps_sent)
next
  case Broadcast
  with assms have "st' = Task3code st" by simp
  with assms(2) show ?thesis by (simp add: Task3code_sends)
qed

lemma run_keeps_id_11:
  "run f its st = Inr st' \<Longrightarrow> \<forall>p\<in>set (esp_now_sent st). msg_id (snd p) = 11
   \<Longrightarrow> \<forall>p\<in>set (esp_now_sent st'). msg_id (snd p) = 11"
proof (induction its arbitrary: st)
  case Nil
  then show ?case by simp
next
  case (Cons i its)
  from Cons.prems(1) obtain s where s: "iterate f i st = Inr s" and r: "run f its s = Inr st'"
    by (auto split: sum.splits)
  from iterate_keeps_id_11 [OF s Cons.prems(2)] Cons.IH [OF r] show ?case by blast
qed

lemma retry_time_keeps_sent:
  assumes "retry_time clk n st = Some r"
  shows "esp_now_sent (snd r) = esp_now_sent st"
proof (rule retry_time.raw_induct [OF _ assms])
  fix f and clk :: "nat \<Rightarrow> tm option" and n and st :: "'a state" and r
  assume IH: "\<And>clk n st r. f clk n st = Some r \<Longrightarrow> esp_now_sent (snd r) = esp_now_sent st"
    and eq: "(let st = printLocalTime (clk n) st
              in if yeart st = 0 then f clk (Suc n) st else Some (Suc n, st)) = Some r"
  show "esp_now_sent (snd r) = esp_now_sent st"
  proof (cases "yeart (printLocalTime (clk n) st) = 0")
    case True
    with eq have "f clk (Suc n) (printLocalTime (clk n) st) = Some r" by simp
    from IH [OF this] show ?thesis by (simp add: printLocalTime_keeps)
  next
    case False
    with eq have "r = (Suc n, printLocalTime (clk n) st)" by auto
    then show ?thesis by (simp add: printLocalTime_keeps)
  qed
qed

lemma setup_after_retry_sent:
  assumes "setup_after_retry env st = Some (Inr st')"
  shows "esp_now_sent st' = esp_now_sent st
       \<or> esp_now_sent st' = esp_now_sent st @
            [(broadcastAddress, \<lparr>msg_id = 11, msg_x = 5, msg_y = 5, msg_z = 5\<rparr>)]"
  using assms
  by (auto simp add: setup_after_retry_def Let_def Serial_println_def standby_def
      measureModeOn_def open_append_def append_text_def esp_now_send_def
      split: sum.splits if_splits option.splits)


lemma setup_boot_sent:
  assumes "setup_boot env st = Some (Inr st')"
  shows "esp_now_sent st' = esp_now_sent st
       \<or> esp_now_sent st' = esp_now_sent st @
            [(broadcastAddress, \<lparr>msg_id = 11, msg_x = 5, msg_y = 5, msg_z = 5\<rparr>)]"
proof -
  let ?s0 = "Serial_print ''Connecting to Wi-Fi'' (st\<lparr>radio := WIFI_STA\<rparr>)"
  from assms obtain s1 r where w: "wifi_wait (wifi_status env) 0 ?s0 = Some s1"
    and t: "retry_time (clock env) 0 s1 = Some r"
    and a: "setup_after_retry env (snd r) = Some (Inr st')"
    by (auto simp add: setup_boot_def split: bind_splits)
  from wifi_wait_only_prints [OF w] have "esp_now_sent s1 = esp_now_sent st"
    by (auto simp add: Serial_print_def)
  with retry_time_keeps_sent [OF t] have "esp_now_sent (snd r) = esp_now_sent st" by simp
  with setup_after_retry_sent [OF a] show ?thesis by simp
qed

text \<open>
  Claim C8. Every iteration of \<open>Task3code\<close> hands exactly one packet to \<open>esp_now_send\<close>,
  and its id is 11. \<open>setup\<close> sends at most one packet, the test packet with id 11. So
  after a boot that starts with nothing sent, and after any number of iterations of the
  three tasks in any order, every packet that was sent has id 11.
\<close>

theorem every_sent_packet_has_id_11:
  "msg_id (myData (Task3code st)) = 11
   \<and> esp_now_sent (Task3code st) = esp_now_sent st @ [(broadcastAddress, myData (Task3code st))]
   \<and> (setup_boot env st0 = Some (Inr st1) \<longrightarrow>
        esp_now_sent st1 = esp_now_sent st0
      \<or> esp_now_sent st1 = esp_now_sent st0 @
            [(broadcastAddress, \<lparr>msg_id = 11, msg_x = 5, msg_y = 5, msg_z = 5\<rparr>)])
   \<and> (esp_now_sent st0 = [] \<and> setup_boot env st0 = Some (Inr st1)
        \<and> run int_of_float its st1 = Inr st2 \<longrightarrow>
        (\<forall>p\<in>set (esp_now_sent st2). msg_id (snd p) = 11))"
proof (intro conjI impI)
  show "msg_id (myData (Task3code st)) = 11"
    and "esp_now_sent (Task3code st) = esp_now_sent st @ [(broadcastAddress, myData (Task3code st))]"
    by (simp_all add: Task3code_sends)
  show "esp_now_sent st1 = esp_now_sent st0
      \<or> esp_now_sent st1 = esp_now_sent st0 @
            [(broadcastAddress, \<lparr>msg_id = 11, msg_x = 5, msg_y = 5, msg_z = 5\<rparr>)]"
    if "setup_boot env st0 = Some (Inr st1)"
    using that by (rule setup_boot_sent)
  show "\<forall>p\<in>set (esp_now_sent st2). msg_id (snd p) = 11"
    if h: "esp_now_sent st0 = [] \<and> setup_boot env st0 = Some (Inr st1)
        \<and> run int_of_float its st1 = Inr st2"
  proof -
    from h setup_boot_sent [of env st0 st1]
    have "\<forall>p\<in>set (esp_now_sent st1). msg_id (snd p) = 11" by auto
    with h run_keeps_id_11 [of int_of_float its st1 st2] show ?thesis by blast
  qed
qed

lemma setup_boot_good_boot:
  "setup_boot good_boot (boot_state Map.empty) = Some (Inr logging_state)"
proof -
  have "retry_time (clock good_boot) 0
          (Serial_print ''.'' (Serial_print ''.''
             (Serial_print ''Connecting to Wi-Fi''
                ((boot_state Map.empty :: real state)\<lparr>radio := WIFI_STA\<rparr>))))
        = Some (4, printLocalTime (Some (clock_at 12 34 56))
             (Serial_print ''.'' (Serial_print ''.''
               (Serial_print ''Connecting to Wi-Fi''
                  ((boot_state Map.empty)\<lparr>radio := WIFI_STA\<rparr>)))))"
    by (simp add: retry_time.simps good_boot_def printLocalTime_def boot_state_def
        Serial_print_def clock_at_def)
  then show ?thesis
    by (simp add: setup_boot_def wifi_wait_good_boot setup_after_retry_good_boot)
qed

theorem every_sent_packet_has_id_11_witness:
  "esp_now_sent (boot_state Map.empty :: real state) = []
   \<and> setup_boot good_boot (boot_state Map.empty) = Some (Inr logging_state)
   \<and> run c_trunc [Broadcast, Sampler (sample_env False True True),
                   Lifecycle (Some (clock_at 12 34 57)), Broadcast] logging_state
       = Inr (Task3code (printLocalTime (Some (clock_at 12 34 57)) (Task3code logging_state)))
   \<and> map (msg_id \<circ> snd)
        (esp_now_sent
           (Task3code (printLocalTime (Some (clock_at 12 34 57)) (Task3code logging_state))))
       = [11, 11, 11]
   \<and> list_all (\<lambda>p. msg_id (snd p) = 11)
        (esp_now_sent
           (Task3code (printLocalTime (Some (clock_at 12 34 57)) (Task3code logging_state))))"
proof -
  let ?its = "[Broadcast, Sampler (sample_env False True True),
               Lifecycle (Some (clock_at 12 34 57)), Broadcast]"
  let ?end = "Task3code (printLocalTime (Some (clock_at 12 34 57)) (Task3code logging_state))"
  have e: "esp_now_sent (boot_state Map.empty :: real state) = []"
    by (simp add: boot_state_def)
  have t: "Task2code (Some (clock_at 12 34 57)) (Task3code logging_state)
      = Inr (printLocalTime (Some (clock_at 12 34 57)) (Task3code logging_state))"
    by (simp add: Task2code_lifecycle_tick lifecycle_tick_def snapshot_def printLocalTime_def
        clock_at_def)
  have r: "run c_trunc ?its logging_state = Inr ?end"
    by (simp add: t Task1code_def sample_env_def)
  have m: "map (msg_id \<circ> snd) (esp_now_sent ?end) = [11, 11, 11]"
    by (simp add: Task3code_sends printLocalTime_keeps logging_state_def)
  from every_sent_packet_has_id_11
         [of _ good_boot "boot_state Map.empty" logging_state c_trunc ?its ?end]
       e setup_boot_good_boot r
  have "\<forall>p\<in>set (esp_now_sent ?end). msg_id (snd p) = 11" by blast
  then have "list_all (\<lambda>p. msg_id (snd p) = 11) (esp_now_sent ?end)"
    by (simp add: list_all_iff)
  with e setup_boot_good_boot r m show ?thesis by blast
qed

end
